theory Spec2Isabelle
  imports Main
begin

section \<open>Exceptions\<close>

text \<open>
  Every exception the modelled code can raise is a value; a function that may raise
  returns \<open>py_exception + 'a\<close> with \<open>Inl\<close> for the raise. \<open>HTTPException\<close> carries
  the three attributes the client observes: status code, detail and headers
  (\<open>headers=None\<close> is the empty list).
\<close>

datatype py_exception =
    HTTPException (status_code: nat) (detail: string) (headers: "(string \<times> string) list")
  | JWSError string
  | JWTError string
  | ExpiredSignatureError string
  | JWTClaimsError string
  | ValueError string
  | TypeError string
  | KeyError string
  | RecursionError string
  | AttributeError string
  | UnknownHashError string
  | IntegrityError string

text \<open>\<open>jose.exceptions\<close>: \<open>ExpiredSignatureError\<close> and \<open>JWTClaimsError\<close> derive from \<open>JWTError\<close>.\<close>

fun isinstance_JWTError :: "py_exception \<Rightarrow> bool" where
  "isinstance_JWTError (JWTError m) = True"
| "isinstance_JWTError (ExpiredSignatureError m) = True"
| "isinstance_JWTError (JWTClaimsError m) = True"
| "isinstance_JWTError e = False"

fun isinstance_ExpiredSignatureError :: "py_exception \<Rightarrow> bool" where
  "isinstance_ExpiredSignatureError (ExpiredSignatureError m) = True"
| "isinstance_ExpiredSignatureError e = False"

fun isinstance_JWSError :: "py_exception \<Rightarrow> bool" where
  "isinstance_JWSError (JWSError m) = True"
| "isinstance_JWSError e = False"

text \<open>\<open>passlib.exc\<close>: \<open>UnknownHashError\<close> derives from \<open>ValueError\<close>.\<close>

fun isinstance_ValueError :: "py_exception \<Rightarrow> bool" where
  "isinstance_ValueError (ValueError m) = True"
| "isinstance_ValueError (UnknownHashError m) = True"
| "isinstance_ValueError e = False"

fun str_exc :: "py_exception \<Rightarrow> string" where
  "str_exc (HTTPException s d h) = d"
| "str_exc (JWSError m) = m"
| "str_exc (JWTError m) = m"
| "str_exc (ExpiredSignatureError m) = m"
| "str_exc (JWTClaimsError m) = m"
| "str_exc (ValueError m) = m"
| "str_exc (TypeError m) = m"
| "str_exc (KeyError m) = m"
| "str_exc (RecursionError m) = m"
| "str_exc (AttributeError m) = m"
| "str_exc (UnknownHashError m) = m"
| "str_exc (IntegrityError m) = m"


definition BadRequestException :: "string \<Rightarrow> py_exception" where
  "BadRequestException d = HTTPException 400 d []"

section \<open>Configuration\<close>

text \<open>
  The fields of \<open>Settings\<close> that the authentication core reads. The module-level
  \<open>settings\<close> object is passed explicitly.
\<close>

record settings =
  SECRET_KEY :: string
  ALGORITHM :: string
  ACCESS_TOKEN_EXPIRE_MINUTES :: int

definition default_settings :: settings where
  "default_settings =
     \<lparr>SECRET_KEY = ''your-secret-key-change-this-in-production'',
      ALGORITHM = ''HS256'',
      ACCESS_TOKEN_EXPIRE_MINUTES = 1440\<rparr>"

section \<open>Time\<close>

text \<open>
  A \<open>datetime\<close> is the number of microseconds since the epoch, the resolution of
  Python's type, and a \<open>timedelta\<close> a number of microseconds. Every function that reads
  \<open>datetime.utcnow()\<close> takes the reading as its argument \<open>now\<close>.
  \<open>timegm(d.utctimetuple())\<close>, by which jose turns a \<open>datetime\<close> into a NumericDate,
  drops the microseconds.
\<close>

definition timegm :: "int \<Rightarrow> int" where
  "timegm d = d div 1000000"

definition minutes :: "int \<Rightarrow> int" where
  "minutes n = n * 60 * 1000000"

section \<open>User store\<close>

text \<open>
  \<open>db/models/user.py\<close>: a row of table \<open>users\<close>. The table is the list of its rows; the column \<open>email\<close> is unique, so
  \<open>User.get_or_none(email=e)\<close> is the first (the only) row with that email and
  \<open>User.create\<close> refuses a second row with an email already stored.
\<close>

record user =
  user_id :: nat
  email :: string
  first_name :: string
  last_name :: string
  hashed_password :: string
  created_at :: int
  updated_at :: int

definition get_or_none :: "user list \<Rightarrow> string \<Rightarrow> user option" where
  "get_or_none users e = find (\<lambda>u. email u = e) users"

definition next_id :: "user list \<Rightarrow> nat" where
  "next_id users = Suc (fold max (map user_id users) 0)"

definition create :: "user list \<Rightarrow> int \<Rightarrow> string \<Rightarrow> string \<Rightarrow> string \<Rightarrow> string
    \<Rightarrow> py_exception + (user \<times> user list)" where
  "create users now e fn ln hp =
     (if list_ex (\<lambda>u. email u = e) users then Inl (IntegrityError ''UNIQUE constraint failed: users.email'')
      else let u = \<lparr>user_id = next_id users, email = e, first_name = fn, last_name = ln,
                      hashed_password = hp, created_at = now, updated_at = now\<rparr>
           in Inr (u, users @ [u]))"

section \<open>Password hasher\<close>

text \<open>
  \<open>pwd_context = CryptContext(schemes=["bcrypt"], ...)\<close>. The bcrypt primitive itself is
  a parameter: \<open>hash_with_salt\<close> is the handler's hash for a given fresh salt,
  \<open>verify_hash\<close> the handler's verification of a secret against a hash string it has
  been handed. What the context adds is the identification of the stored string:
  \<open>CryptContext.verify\<close> looks for a configured scheme whose \<open>identify\<close> accepts the
  string (for bcrypt: the string starts with one of its identifiers) and raises
  \<open>UnknownHashError\<close> when there is none.
\<close>

record bcrypt_backend =
  hash_with_salt :: "string \<Rightarrow> string \<Rightarrow> py_exception + string"
  verify_hash :: "string \<Rightarrow> string \<Rightarrow> py_exception + bool"

definition startswith :: "string \<Rightarrow> string \<Rightarrow> bool" where
  "startswith s p = (take (length p) s = p)"

definition bcrypt_ident_values :: "string list" where
  "bcrypt_ident_values = [''$2$'', ''$2a$'', ''$2x$'', ''$2y$'', ''$2b$'']"

definition bcrypt_identify :: "string \<Rightarrow> bool" where
  "bcrypt_identify h = list_ex (startswith h) bcrypt_ident_values"

definition pwd_context_verify :: "bcrypt_backend \<Rightarrow> string \<Rightarrow> string \<Rightarrow> py_exception + bool" where
  "pwd_context_verify backend secret h =
     (if bcrypt_identify h then verify_hash backend secret h
      else Inl (UnknownHashError ''hash could not be identified''))"

definition pwd_context_hash :: "bcrypt_backend \<Rightarrow> string \<Rightarrow> string \<Rightarrow> py_exception + string" where
  "pwd_context_hash backend salt secret = hash_with_salt backend salt secret"

text \<open>\<open>app/config/__init__.py\<close>: both functions hand their arguments to the context.\<close>

definition verify_password :: "bcrypt_backend \<Rightarrow> string \<Rightarrow> string \<Rightarrow> py_exception + bool" where
  "verify_password backend plain_password hashed = pwd_context_verify backend plain_password hashed"

definition get_password_hash :: "bcrypt_backend \<Rightarrow> string \<Rightarrow> string \<Rightarrow> py_exception + string" where
  "get_password_hash backend salt password = pwd_context_hash backend salt password"

section \<open>Tokens\<close>

text \<open>
  The claims of a token are a JSON object: a finite map from claim names to JSON values.
  The \<open>data\<close> dictionary handed to \<open>create_access_token\<close> is such a map as well, so that
  a key bound to \<open>None\<close> (\<open>JNull\<close>) differs from a key that is absent. JSON numbers are
  integers here; strings are ASCII.
\<close>

datatype json =
    JNull
  | JBool bool
  | JInt int
  | JStr string
  | JList "json list"
  | JObject "(string \<times> json) list"

type_synonym claims = "string \<rightharpoonup> json"

text \<open>
  A token string is modelled by what jose's \<open>jws._load\<close> and the JSON parser make of it:
  \<^item> \<open>Unparseable raw why\<close>: the string \<open>raw\<close> does not split into three base64url
    segments holding a JSON object as header and a JSON object as claims; jose raises a
    \<open>JWSError\<close> or \<open>JWTError\<close> with message \<open>why\<close> for it;
  \<^item> \<open>Overnested raw\<close>: the header segment of \<open>raw\<close> decodes to JSON text nested deeper than
    the recursion limit of the interpreter, for which \<open>json.loads\<close> raises
    \<open>RecursionError\<close>, an error that \<open>_load\<close> does not handle;
  \<^item> \<open>JWS a k c\<close>: the header names algorithm \<open>a\<close> (\<open>None\<close>: it has no \<open>alg\<close> entry), the
    claims are \<open>c\<close>, and the signature was computed with key \<open>k\<close>. Signatures are
    symbolic: one verifies under a key exactly when it was computed with that key.
\<close>

datatype token =
    Unparseable (raw: string) (why: string)
  | Overnested (raw: string)
  | JWS (alg: "string option") (signed_with: string) (jws_claims: claims)

subsection \<open>Python's \<open>int()\<close> on a JSON value\<close>

definition is_space :: "char \<Rightarrow> bool" where
  "is_space c = (let n = (of_char c :: nat) in (9 \<le> n \<and> n \<le> 13) \<or> n = 32)"

definition strip :: "string \<Rightarrow> string" where
  "strip s = rev (dropWhile is_space (rev (dropWhile is_space s)))"

definition digit_val :: "char \<Rightarrow> nat option" where
  "digit_val c = (let n = (of_char c :: nat) in if 48 \<le> n \<and> n \<le> 57 then Some (n - 48) else None)"

text \<open>Digits, with single underscores allowed between two digits.\<close>

fun parse_digits :: "nat \<Rightarrow> bool \<Rightarrow> string \<Rightarrow> nat option" where
  "parse_digits acc after_digit [] = (if after_digit then Some acc else None)"
| "parse_digits acc after_digit (c # cs) =
     (if c = CHR ''_'' then
        (if after_digit \<and> cs \<noteq> [] then parse_digits acc False cs else None)
      else
        (case digit_val c of
           None \<Rightarrow> None
         | Some v \<Rightarrow> parse_digits (10 * acc + v) True cs))"

definition int_of_str :: "string \<Rightarrow> int option" where
  "int_of_str s =
     (case strip s of
        [] \<Rightarrow> None
      | c # cs \<Rightarrow>
          if c = CHR ''-'' then map_option (\<lambda>n. - int n) (parse_digits 0 False cs)
          else if c = CHR ''+'' then map_option int (parse_digits 0 False cs)
          else map_option int (parse_digits 0 False (c # cs)))"

fun py_int :: "json \<Rightarrow> py_exception + int" where
  "py_int (JInt n) = Inr n"
| "py_int (JBool b) = Inr (if b then 1 else 0)"
| "py_int (JStr s) =
     (case int_of_str s of
        Some n \<Rightarrow> Inr n
      | None \<Rightarrow> Inl (ValueError ''invalid literal for int() with base 10''))"
| "py_int JNull =
     Inl (TypeError ''int() argument must be a string, a bytes-like object or a real number, not NoneType'')"
| "py_int (JList xs) =
     Inl (TypeError ''int() argument must be a string, a bytes-like object or a real number, not list'')"
| "py_int (JObject kvs) =
     Inl (TypeError ''int() argument must be a string, a bytes-like object or a real number, not dict'')"

fun is_JStr :: "json \<Rightarrow> bool" where
  "is_JStr (JStr s) = True"
| "is_JStr v = False"

subsection \<open>The jose library: \<open>jws.verify\<close>, \<open>jwt.encode\<close>, \<open>jwt.decode\<close>\<close>

text \<open>
  The options of \<open>jwt.decode\<close> with jose's defaults; the \<open>require_...\<close> options are all
  off and no caller sets them.
\<close>

record options =
  verify_signature :: bool
  verify_aud :: bool
  verify_iat :: bool
  verify_exp :: bool
  verify_nbf :: bool
  verify_iss :: bool
  verify_sub :: bool
  verify_jti :: bool
  verify_at_hash :: bool
  leeway :: int

definition defaults :: options where
  "defaults = \<lparr>verify_signature = True, verify_aud = True, verify_iat = True,
               verify_exp = True, verify_nbf = True, verify_iss = True, verify_sub = True,
               verify_jti = True, verify_at_hash = True, leeway = 0\<rparr>"

fun jws_verify :: "token \<Rightarrow> string \<Rightarrow> string list \<Rightarrow> bool \<Rightarrow> py_exception + claims" where
  "jws_verify (Unparseable r w) key algorithms verify = Inl (JWSError w)"
| "jws_verify (Overnested r) key algorithms verify =
     Inl (RecursionError ''maximum recursion depth exceeded while decoding a JSON array'')"
| "jws_verify (JWS a k c) key algorithms verify =
     (if verify then
        (case a of
           None \<Rightarrow> Inl (JWSError ''No algorithm was specified in the JWS header.'')
         | Some al \<Rightarrow>
             if al = [] then Inl (JWSError ''No algorithm was specified in the JWS header.'')
             else if al \<notin> set algorithms then Inl (JWSError ''The specified alg value is not allowed'')
             else if k \<noteq> key then Inl (JWSError ''Signature verification failed.'')
             else Inr c)
      else Inr c)"

text \<open>\<open>jws.get_unverified_header(token)["alg"]\<close>, read by \<open>jwt.decode\<close> after \<open>jws.verify\<close>.\<close>

fun header_alg :: "token \<Rightarrow> py_exception + string" where
  "header_alg (JWS (Some al) k c) = Inr al"
| "header_alg (JWS None k c) = Inl (KeyError ''alg'')"
| "header_alg (Unparseable r w) = Inl (JWSError w)"
| "header_alg (Overnested r) =
     Inl (RecursionError ''maximum recursion depth exceeded while decoding a JSON array'')"

text \<open>
  The checks of \<open>_validate_claims\<close>. \<open>now\<close> is the NumericDate of the clock,
  \<open>timegm(datetime.utcnow().utctimetuple())\<close>. Where jose converts with \<open>int()\<close> it
  handles \<open>ValueError\<close> only.
\<close>

definition validate_iat :: "claims \<Rightarrow> py_exception + unit" where
  "validate_iat c =
     (case c ''iat'' of
        None \<Rightarrow> Inr ()
      | Some v \<Rightarrow>
          (case py_int v of
             Inr n \<Rightarrow> Inr ()
           | Inl e \<Rightarrow>
               if isinstance_ValueError e
               then Inl (JWTClaimsError ''Issued At claim (iat) must be an integer.'')
               else Inl e))"

definition validate_nbf :: "int \<Rightarrow> claims \<Rightarrow> int \<Rightarrow> py_exception + unit" where
  "validate_nbf now c lw =
     (case c ''nbf'' of
        None \<Rightarrow> Inr ()
      | Some v \<Rightarrow>
          (case py_int v of
             Inr n \<Rightarrow> if n > now + lw then Inl (JWTClaimsError ''The token is not yet valid (nbf)'')
                      else Inr ()
           | Inl e \<Rightarrow>
               if isinstance_ValueError e
               then Inl (JWTClaimsError ''Not Before claim (nbf) must be an integer.'')
               else Inl e))"

definition validate_exp :: "int \<Rightarrow> claims \<Rightarrow> int \<Rightarrow> py_exception + unit" where
  "validate_exp now c lw =
     (case c ''exp'' of
        None \<Rightarrow> Inr ()
      | Some v \<Rightarrow>
          (case py_int v of
             Inr e \<Rightarrow> if e < now - lw then Inl (ExpiredSignatureError ''Signature has expired.'')
                      else Inr ()
           | Inl e \<Rightarrow>
               if isinstance_ValueError e
               then Inl (JWTClaimsError ''Expiration Time claim (exp) must be an integer.'')
               else Inl e))"

definition validate_aud :: "claims \<Rightarrow> string option \<Rightarrow> py_exception + unit" where
  "validate_aud c audience =
     (case c ''aud'' of
        None \<Rightarrow> Inr ()
      | Some v \<Rightarrow>
          (case (case v of JStr s \<Rightarrow> Some [JStr s] | JList xs \<Rightarrow> Some xs | _ \<Rightarrow> None) of
             None \<Rightarrow> Inl (JWTClaimsError ''Invalid claim format in token'')
           | Some audience_claims \<Rightarrow>
               if list_ex (\<lambda>x. \<not> is_JStr x) audience_claims
               then Inl (JWTClaimsError ''Invalid claim format in token'')
               else if (case audience of None \<Rightarrow> True | Some a \<Rightarrow> JStr a \<notin> set audience_claims)
               then Inl (JWTClaimsError ''Invalid audience'')
               else Inr ()))"

definition validate_iss :: "claims \<Rightarrow> string option \<Rightarrow> py_exception + unit" where
  "validate_iss c issuer =
     (case issuer of
        None \<Rightarrow> Inr ()
      | Some i \<Rightarrow> if c ''iss'' \<noteq> Some (JStr i) then Inl (JWTClaimsError ''Invalid issuer'')
                  else Inr ())"

text \<open>No caller passes \<open>subject\<close> or \<open>access_token\<close>; both are \<open>None\<close>.\<close>

definition validate_sub :: "claims \<Rightarrow> py_exception + unit" where
  "validate_sub c =
     (case c ''sub'' of
        None \<Rightarrow> Inr ()
      | Some v \<Rightarrow> if is_JStr v then Inr () else Inl (JWTClaimsError ''Subject must be a string.''))"

definition validate_jti :: "claims \<Rightarrow> py_exception + unit" where
  "validate_jti c =
     (case c ''jti'' of
        None \<Rightarrow> Inr ()
      | Some v \<Rightarrow> if is_JStr v then Inr () else Inl (JWTClaimsError ''JWT ID must be a string.''))"

definition validate_at_hash :: "claims \<Rightarrow> py_exception + unit" where
  "validate_at_hash c =
     (case c ''at_hash'' of
        None \<Rightarrow> Inr ()
      | Some v \<Rightarrow>
          Inl (JWTClaimsError ''No access_token provided to compare against at_hash claim.''))"

text \<open>One check after the other; the first exception ends the sequence.\<close>

definition when_set :: "bool \<Rightarrow> py_exception + unit \<Rightarrow> py_exception + unit" where
  "when_set b check = (if b then check else Inr ())"

definition and_then :: "py_exception + unit \<Rightarrow> py_exception + unit \<Rightarrow> py_exception + unit" where
  "and_then first rest = (case first of Inl e \<Rightarrow> Inl e | Inr u \<Rightarrow> rest)"

definition validate_claims :: "int \<Rightarrow> claims \<Rightarrow> string option \<Rightarrow> string option \<Rightarrow> options
    \<Rightarrow> py_exception + unit" where
  "validate_claims now c audience issuer opts =
     and_then (when_set (verify_iat opts) (validate_iat c))
    (and_then (when_set (verify_nbf opts) (validate_nbf now c (leeway opts)))
    (and_then (when_set (verify_exp opts) (validate_exp now c (leeway opts)))
    (and_then (when_set (verify_aud opts) (validate_aud c audience))
    (and_then (when_set (verify_iss opts) (validate_iss c issuer))
    (and_then (when_set (verify_sub opts) (validate_sub c))
    (and_then (when_set (verify_jti opts) (validate_jti c))
              (when_set (verify_at_hash opts) (validate_at_hash c))))))))"

text \<open>
  \<open>jwt.decode(token, key, algorithms, options, audience, issuer)\<close> at the clock reading
  \<open>now\<close>. Only a \<open>JWSError\<close> of the signature layer is raised again as \<open>JWTError\<close>.
\<close>

definition jwt_decode :: "int \<Rightarrow> token \<Rightarrow> string \<Rightarrow> string list \<Rightarrow> options
    \<Rightarrow> string option \<Rightarrow> string option \<Rightarrow> py_exception + claims" where
  "jwt_decode now tok key algorithms opts audience issuer =
     (case jws_verify tok key algorithms (verify_signature opts) of
        Inl e \<Rightarrow> if isinstance_JWSError e then Inl (JWTError (str_exc e)) else Inl e
      | Inr c \<Rightarrow>
          (case header_alg tok of
             Inl e \<Rightarrow> Inl e
           | Inr algorithm \<Rightarrow>
               (case validate_claims (timegm now) c audience issuer opts of
                  Inl e \<Rightarrow> Inl e
                | Inr u \<Rightarrow> Inr c)))"

text \<open>The configured algorithm is one that jose supports for a string key.\<close>

definition jwt_encode :: "claims \<Rightarrow> string \<Rightarrow> string \<Rightarrow> token" where
  "jwt_encode c key algorithm = JWS (Some algorithm) key c"

subsection \<open>\<open>app/config/__init__.py\<close>: the token functions\<close>

text \<open>
  The reads of \<open>datetime.utcnow()\<close> within one call are one reading \<open>now\<close>. The truth
  value of a \<open>timedelta\<close> is that of being non-zero. \<open>jwt.encode\<close> writes the two
  \<open>datetime\<close> values as NumericDate; the conversion is done where they enter the claims.
  The \<open>isinstance(user, User)\<close> test of \<open>create_user_access_token\<close> is the type of its
  argument.
\<close>

definition create_access_token :: "settings \<Rightarrow> int \<Rightarrow> claims \<Rightarrow> int option
    \<Rightarrow> py_exception + token" where
  "create_access_token st now data expires_delta =
     (if data ''sub'' = None then Inl (ValueError ''Token data must contain 'sub' key'')
      else
        let expire =
              (case expires_delta of
                 Some d \<Rightarrow> if d \<noteq> 0 then now + d
                           else now + minutes (ACCESS_TOKEN_EXPIRE_MINUTES st)
               | None \<Rightarrow> now + minutes (ACCESS_TOKEN_EXPIRE_MINUTES st));
            to_encode = data(''exp'' \<mapsto> JInt (timegm expire),
                             ''iat'' \<mapsto> JInt (timegm now),
                             ''iss'' \<mapsto> JStr ''event_manager_api'',
                             ''aud'' \<mapsto> JStr ''event_manager_api_users'')
        in Inr (jwt_encode to_encode (SECRET_KEY st) (ALGORITHM st)))"

definition create_user_access_token :: "settings \<Rightarrow> int \<Rightarrow> user \<Rightarrow> py_exception + token" where
  "create_user_access_token st now u =
     (if email u = [] then Inl (ValueError ''User must have an email address'')
      else create_access_token st now [''sub'' \<mapsto> JStr (email u)] None)"

definition decode_token :: "settings \<Rightarrow> int \<Rightarrow> token \<Rightarrow> py_exception + claims" where
  "decode_token st now tok =
     (case jwt_decode now tok (SECRET_KEY st) [ALGORITHM st] defaults None None of
        Inr payload \<Rightarrow> Inr payload
      | Inl e \<Rightarrow>
          if isinstance_ExpiredSignatureError e then Inl (JWTError ''Token has expired'')
          else if isinstance_JWTError e then Inl (JWTError ''Could not validate token'')
          else Inl e)"

definition get_email_from_token :: "settings \<Rightarrow> int \<Rightarrow> token \<Rightarrow> py_exception + json option" where
  "get_email_from_token st now tok =
     (case jwt_decode now tok (SECRET_KEY st) [ALGORITHM st]
             (defaults\<lparr>verify_signature := False, verify_exp := False\<rparr>) None None of
        Inr payload \<Rightarrow> Inr (payload ''sub'')
      | Inl e \<Rightarrow> if isinstance_JWTError e then Inr None else Inl e)"

section \<open>Authentication gate\<close>

text \<open>
  The bearer scheme of the framework, \<open>HTTPBearer(auto_error)\<close>. A request is seen
  through its \<open>Authorization\<close> header: absent, or present and already partitioned at the
  first space into the scheme and the token string.
\<close>

record request =
  authorization :: "(string \<times> token) option"

record http_credentials =
  scheme :: string
  credentials :: token

definition lower_char :: "char \<Rightarrow> char" where
  "lower_char c =
     (let n = (of_char c :: nat) in if 65 \<le> n \<and> n \<le> 90 then char_of (n + 32) else c)"

definition lower :: "string \<Rightarrow> string" where
  "lower s = map lower_char s"

fun empty_token :: "token \<Rightarrow> bool" where
  "empty_token (Unparseable r w) = (r = [])"
| "empty_token (Overnested r) = False"
| "empty_token (JWS a k c) = False"

definition HTTPBearer :: "bool \<Rightarrow> request \<Rightarrow> py_exception + http_credentials option" where
  "HTTPBearer auto_error req =
     (case authorization req of
        None \<Rightarrow> if auto_error then Inl (HTTPException 403 ''Not authenticated'' []) else Inr None
      | Some (sch, tok) \<Rightarrow>
          if sch = [] \<or> empty_token tok then
            (if auto_error then Inl (HTTPException 403 ''Not authenticated'' []) else Inr None)
          else if lower sch \<noteq> ''bearer'' then
            (if auto_error then Inl (HTTPException 403 ''Invalid authentication credentials'' [])
             else Inr None)
          else Inr (Some \<lparr>scheme = sch, credentials = tok\<rparr>))"

definition security_required :: "request \<Rightarrow> py_exception + http_credentials option" where
  "security_required = HTTPBearer True"


text \<open>
  \<open>app/api/dependencies.py\<close>. \<open>payload.get("sub")\<close> is \<open>None\<close> for an absent key and for
  a key bound to \<open>null\<close>. After a decode with \<open>verify_sub\<close> on, a subject that is present
  is a string, so the last branch of the case on the subject is never taken.
\<close>

definition credentials_exception :: py_exception where
  "credentials_exception =
     HTTPException 401 ''Could not validate credentials'' [(''WWW-Authenticate'', ''Bearer'')]"

definition dependency_options :: options where
  "dependency_options = defaults\<lparr>verify_iss := False, verify_aud := False\<rparr>"

definition get_current_user :: "settings \<Rightarrow> int \<Rightarrow> user list \<Rightarrow> http_credentials
    \<Rightarrow> py_exception + user" where
  "get_current_user st now users cred =
     (case jwt_decode now (credentials cred) (SECRET_KEY st) [ALGORITHM st] dependency_options
             None None of
        Inl e \<Rightarrow> if isinstance_JWTError e then Inl credentials_exception else Inl e
      | Inr payload \<Rightarrow>
          (case payload ''sub'' of
             None \<Rightarrow> Inl credentials_exception
           | Some JNull \<Rightarrow> Inl credentials_exception
           | Some (JStr em) \<Rightarrow>
               (case get_or_none users em of
                  None \<Rightarrow> Inl credentials_exception
                | Some u \<Rightarrow> Inr u)
           | Some v \<Rightarrow> Inl credentials_exception))"


text \<open>
  \<open>Depends(security_required)\<close> and \<open>Depends(security_optional)\<close>: the framework calls the
  scheme on the request and hands its result to the dependency; an exception of the
  scheme ends the request before the dependency runs.
\<close>

definition require_identity :: "settings \<Rightarrow> int \<Rightarrow> user list \<Rightarrow> request \<Rightarrow> py_exception + user" where
  "require_identity st now users req =
     (case security_required req of
        Inl e \<Rightarrow> Inl e
      | Inr None \<Rightarrow> Inl (AttributeError ''NoneType object has no attribute credentials'')
      | Inr (Some cred) \<Rightarrow> get_current_user st now users cred)"


section \<open>Registration and login\<close>

text \<open>\<open>app/api/schemas.py\<close>, \<open>app/api/auth/auth.py\<close>\<close>

record user_register =
  reg_email :: string
  reg_first_name :: string
  reg_last_name :: string
  reg_password :: string

record login_form =
  username :: string
  password :: string

record token_response =
  access_token :: token
  token_type :: string
  resp_id :: nat
  resp_email :: string
  resp_first_name :: string
  resp_last_name :: string
  resp_created_at :: int
  resp_updated_at :: int

definition make_token_response :: "token \<Rightarrow> user \<Rightarrow> token_response" where
  "make_token_response t u =
     \<lparr>access_token = t, token_type = ''bearer'', resp_id = user_id u, resp_email = email u,
      resp_first_name = first_name u, resp_last_name = last_name u,
      resp_created_at = created_at u, resp_updated_at = updated_at u\<rparr>"

text \<open>
  \<open>register\<close> reads and writes the user table: it returns its outcome and the table
  afterwards. \<open>salt\<close> is the random salt the hasher draws for this call.
\<close>

definition register :: "bcrypt_backend \<Rightarrow> settings \<Rightarrow> string \<Rightarrow> int \<Rightarrow> user list \<Rightarrow> user_register
    \<Rightarrow> (py_exception + token_response) \<times> user list" where
  "register backend st salt now users user_data =
     (case get_or_none users (reg_email user_data) of
        Some existing_user \<Rightarrow>
          (Inl (BadRequestException ''User with this email already exists''), users)
      | None \<Rightarrow>
          (case get_password_hash backend salt (reg_password user_data) of
             Inl e \<Rightarrow> (Inl e, users)
           | Inr hashed \<Rightarrow>
               (case create users now (reg_email user_data) (reg_first_name user_data)
                       (reg_last_name user_data) hashed of
                  Inl e \<Rightarrow> (Inl e, users)
                | Inr (u, users') \<Rightarrow>
                    (case create_user_access_token st now u of
                       Inl e \<Rightarrow> (Inl e, users')
                     | Inr t \<Rightarrow> (Inr (make_token_response t u), users')))))"


section \<open>Vocabulary of the statements\<close>

text \<open>
  The time claims that jose converts with \<open>int()\<close> are numeric when each of them is
  absent or a JSON integer.
\<close>

fun absent_or_int :: "json option \<Rightarrow> bool" where
  "absent_or_int None = True"
| "absent_or_int (Some (JInt n)) = True"
| "absent_or_int (Some v) = False"

definition numeric_dates :: "claims \<Rightarrow> bool" where
  "numeric_dates c =
     (absent_or_int (c ''iat'') \<and> absent_or_int (c ''nbf'') \<and> absent_or_int (c ''exp''))"

section \<open>Example data\<close>

text \<open>
  Concrete values on which the functions are evaluated. \<open>alice_hash\<close> is the bcrypt hash
  of \<open>Secret123\<close> with 12 rounds and salt \<open>abcdefghijklmnopqrstuu\<close>. \<open>table_backend\<close>
  stands in for the bcrypt primitive and knows this one entry: it hashes that secret
  with that salt, verifies secrets against that hash, refuses a secret with a NUL byte
  as bcrypt does, and has no answer elsewhere.
\<close>

definition alice_hash :: string where
  "alice_hash = ''$2b$12$abcdefghijklmnopqrstuuhfzFpBaIOD3.x/mq5zbKsj8UgXq8SK.''"

definition table_backend :: bcrypt_backend where
  "table_backend =
     \<lparr>hash_with_salt = (\<lambda>salt secret.
         if salt = ''abcdefghijklmnopqrstuu'' \<and> secret = ''Secret123'' then Inr alice_hash
         else Inl (ValueError ''not in the table'')),
      verify_hash = (\<lambda>secret h.
         if CHR 0x00 \<in> set secret then Inl (ValueError ''NULL byte in password'')
         else if h = alice_hash then Inr (secret = ''Secret123'')
         else Inl (ValueError ''not in the table''))\<rparr>"

definition alice :: user where
  "alice = \<lparr>user_id = 1, email = ''a@x.com'', first_name = ''Alice'', last_name = ''A'',
            hashed_password = alice_hash, created_at = 0, updated_at = 0\<rparr>"

definition alice_data :: claims where
  "alice_data = [''sub'' \<mapsto> JStr ''a@x.com'']"

text \<open>The claims and the token issued for \<open>alice_data\<close> at second 1000 of the epoch.\<close>

definition alice_claims :: claims where
  "alice_claims = [''sub'' \<mapsto> JStr ''a@x.com'', ''exp'' \<mapsto> JInt 87400, ''iat'' \<mapsto> JInt 1000,
                   ''iss'' \<mapsto> JStr ''event_manager_api'',
                   ''aud'' \<mapsto> JStr ''event_manager_api_users'']"

definition alice_token :: token where
  "alice_token = JWS (Some ''HS256'') ''your-secret-key-change-this-in-production'' alice_claims"

section \<open>Properties of the library model\<close>

lemma get_or_none_email: "get_or_none users e = Some u \<Longrightarrow> email u = e"
  unfolding get_or_none_def by (induction users) (auto split: if_splits)

lemma and_then_Inr: "(and_then a b = Inr u) = ((\<exists>v. a = Inr v) \<and> b = Inr u)"
  by (cases a) (simp_all add: and_then_def)

lemma and_then_Inl: "(and_then a b = Inl e) = (a = Inl e \<or> ((\<exists>v. a = Inr v) \<and> b = Inl e))"
  by (cases a) (auto simp: and_then_def)

lemma and_then_first: "a = Inl x \<Longrightarrow> and_then a b = Inl x"
  by (simp add: and_then_def)

lemma and_then_rest: "\<exists>e. b = Inl e \<Longrightarrow> \<exists>e. and_then a b = Inl e"
  by (cases a) (auto simp: and_then_def)

lemma when_set_Inl: "(when_set b x = Inl e) = (b \<and> x = Inl e)"
  by (simp add: when_set_def)

lemma when_set_Inr: "(when_set b x = Inr u) = (b \<longrightarrow> x = Inr u)"
  by (cases u) (simp add: when_set_def)

lemma absent_or_int_cases: "absent_or_int x \<Longrightarrow> x = None \<or> (\<exists>n. x = Some (JInt n))"
  by (cases x rule: absent_or_int.cases) simp_all

text \<open>
  With numeric time claims the checks of \<open>_validate_claims\<close> raise nothing but
  \<open>JWTError\<close> and its subclasses.
\<close>

lemma validate_iat_numeric: "absent_or_int (c ''iat'') \<Longrightarrow> validate_iat c = Inr ()"
  by (auto simp: validate_iat_def dest!: absent_or_int_cases)

lemma validate_nbf_numeric:
  "absent_or_int (c ''nbf'') \<Longrightarrow> validate_nbf now c lw = Inl e \<Longrightarrow> isinstance_JWTError e"
  by (auto simp: validate_nbf_def dest!: absent_or_int_cases split: if_splits)

lemma validate_exp_numeric:
  "absent_or_int (c ''exp'') \<Longrightarrow> validate_exp now c lw = Inl e \<Longrightarrow> isinstance_JWTError e"
  by (auto simp: validate_exp_def dest!: absent_or_int_cases split: if_splits)

lemma validate_aud_raises: "validate_aud c audience = Inl e \<Longrightarrow> isinstance_JWTError e"
  by (auto simp: validate_aud_def split: option.splits if_splits)

lemma validate_iss_raises: "validate_iss c issuer = Inl e \<Longrightarrow> isinstance_JWTError e"
  by (auto simp: validate_iss_def split: option.splits if_splits)

lemma validate_sub_raises: "validate_sub c = Inl e \<Longrightarrow> isinstance_JWTError e"
  by (auto simp: validate_sub_def split: option.splits if_splits)

lemma validate_jti_raises: "validate_jti c = Inl e \<Longrightarrow> isinstance_JWTError e"
  by (auto simp: validate_jti_def split: option.splits if_splits)

lemma validate_at_hash_raises: "validate_at_hash c = Inl e \<Longrightarrow> isinstance_JWTError e"
  by (auto simp: validate_at_hash_def split: option.splits if_splits)

lemma validate_claims_numeric:
  assumes "numeric_dates c" and "validate_claims now c audience issuer opts = Inl e"
  shows "isinstance_JWTError e"
  using assms
  unfolding validate_claims_def numeric_dates_def and_then_Inl when_set_Inl
  by (auto simp: validate_iat_numeric
        dest: validate_nbf_numeric validate_exp_numeric validate_aud_raises validate_iss_raises
          validate_sub_raises validate_jti_raises validate_at_hash_raises)

lemma validate_claims_not_expired:
  assumes "validate_claims now c audience issuer opts = Inr u"
    and "verify_exp opts" and "c ''exp'' = Some (JInt e)"
  shows "now - leeway opts \<le> e"
  using assms
  unfolding validate_claims_def and_then_Inr when_set_Inr
  by (auto simp: validate_exp_def split: if_splits)

text \<open>The checks that follow the expiry check raise \<open>JWTClaimsError\<close> only.\<close>

lemma defaults_simps:
  "verify_signature defaults" "verify_exp defaults" "leeway defaults = 0"
  "verify_iat defaults" "verify_nbf defaults" "verify_aud defaults" "verify_iss defaults"
  "verify_sub defaults" "verify_jti defaults" "verify_at_hash defaults"
  by (simp_all add: defaults_def)

lemma dependency_options_simps:
  "verify_signature dependency_options" "verify_exp dependency_options"
  "leeway dependency_options = 0" "verify_sub dependency_options"
  "\<not> verify_aud dependency_options" "\<not> verify_iss dependency_options"
  by (simp_all add: dependency_options_def defaults_def)







lemma validate_claims_aud_fails:
  assumes "verify_aud opts" and "validate_aud c audience = Inl x"
  shows "\<exists>e. validate_claims now c audience issuer opts = Inl e"
  unfolding validate_claims_def
  by (intro and_then_rest exI [of _ x] and_then_first) (simp add: when_set_def assms)

lemma validate_aud_no_audience: "c ''aud'' = Some (JStr s) \<Longrightarrow> \<exists>x. validate_aud c None = Inl x"
  by (simp add: validate_aud_def)

text \<open>What \<open>jwt.decode\<close> returns and raises.\<close>

lemma jwt_decode_Inr:
  assumes "jwt_decode now tok key algs opts audience issuer = Inr c'" and "verify_signature opts"
  shows "\<exists>a. tok = JWS (Some a) key c' \<and> a \<noteq> [] \<and> a \<in> set algs
           \<and> validate_claims (timegm now) c' audience issuer opts = Inr ()"
  using assms
  by (cases tok) (auto simp: jwt_decode_def split: sum.splits option.splits if_splits)

lemma jwt_decode_unparseable:
  "jwt_decode now (Unparseable r w) key algs opts audience issuer = Inl (JWTError w)"
  by (simp add: jwt_decode_def)

lemma jwt_decode_overnested:
  "\<exists>m. jwt_decode now (Overnested r) key algs opts audience issuer = Inl (RecursionError m)"
  by (simp add: jwt_decode_def)

lemma jwt_decode_bad_signature:
  assumes "verify_signature opts" and "a \<noteq> Some al \<or> k \<noteq> key"
  shows "\<exists>m. jwt_decode now (JWS a k c) key [al] opts audience issuer = Inl (JWTError m)"
  using assms by (cases a) (auto simp: jwt_decode_def)

lemma jwt_decode_numeric_raises:
  assumes "jwt_decode now (JWS a k c) key algs opts audience issuer = Inl e"
    and "verify_signature opts" and "numeric_dates c"
  shows "isinstance_JWTError e"
  using assms
  by (cases a)
     (auto simp: jwt_decode_def dest: validate_claims_numeric split: sum.splits if_splits)

text \<open>
  The bearer scheme: without \<open>auto_error\<close> it always returns; with it, it yields
  credentials or raises a 403 that has no headers, and never yields \<open>None\<close>.
\<close>

lemma lower_Bearer: "lower ''Bearer'' = ''bearer''"
  by code_simp



lemma security_required_raises_403:
  "security_required req = Inl e \<Longrightarrow> status_code e = 403 \<and> headers e = []"
  by (auto simp: security_required_def HTTPBearer_def split: option.splits prod.splits if_splits)

lemma security_required_not_None: "security_required req \<noteq> Inr None"
  by (auto simp: security_required_def HTTPBearer_def split: option.splits prod.splits)


section \<open>Mandatory identity resolution\<close>

text \<open>
  After a decode by the two dependencies a subject that is present is a string: the last
  branch of their case on the subject is not taken.
\<close>

lemma validate_claims_subject_is_string:
  assumes "validate_claims now c audience issuer opts = Inr u" and "verify_sub opts"
  shows "c ''sub'' = None \<or> (\<exists>s. c ''sub'' = Some (JStr s))"
proof -
  from assms have "validate_sub c = Inr u"
    unfolding validate_claims_def and_then_Inr when_set_Inr by simp
  then show ?thesis
    by (cases "c ''sub''"; cases "the (c ''sub'')")
       (auto simp: validate_sub_def split: if_splits)
qed

lemma decoded_subject_is_string:
  assumes "jwt_decode now tok key algs dependency_options None None = Inr c"
  shows "c ''sub'' = None \<or> (\<exists>s. c ''sub'' = Some (JStr s))"
proof -
  from jwt_decode_Inr [OF assms dependency_options_simps(1)]
  have "validate_claims (timegm now) c None None dependency_options = Inr ()" by blast
  from validate_claims_subject_is_string [OF this dependency_options_simps(4)]
  show ?thesis .
qed

lemma get_current_user_unparseable:
  "credentials cred = Unparseable r w \<Longrightarrow>
   get_current_user st now users cred = Inl credentials_exception"
  by (simp add: get_current_user_def jwt_decode_unparseable)

lemma get_current_user_bad_signature:
  assumes "credentials cred = JWS a k c" and "a \<noteq> Some (ALGORITHM st) \<or> k \<noteq> SECRET_KEY st"
  shows "get_current_user st now users cred = Inl credentials_exception"
proof -
  from jwt_decode_bad_signature [OF dependency_options_simps(1) assms(2)]
  obtain m where "jwt_decode now (JWS a k c) (SECRET_KEY st) [ALGORITHM st] dependency_options
      None None = Inl (JWTError m)"
    by blast
  with assms(1) show ?thesis by (simp add: get_current_user_def)
qed

lemma get_current_user_Inr:
  assumes "get_current_user st now users cred = Inr u"
  shows "\<exists>c. credentials cred = JWS (Some (ALGORITHM st)) (SECRET_KEY st) c
           \<and> c ''sub'' = Some (JStr (email u)) \<and> get_or_none users (email u) = Some u
           \<and> (\<forall>e. c ''exp'' = Some (JInt e) \<longrightarrow> timegm now \<le> e)"
proof -
  from assms obtain c em where d: "jwt_decode now (credentials cred) (SECRET_KEY st)
      [ALGORITHM st] dependency_options None None = Inr c"
    and s: "c ''sub'' = Some (JStr em)" and g: "get_or_none users em = Some u"
    by (auto simp: get_current_user_def split: sum.splits option.splits json.splits if_splits)
  from jwt_decode_Inr [OF d dependency_options_simps(1)]
  have t: "credentials cred = JWS (Some (ALGORITHM st)) (SECRET_KEY st) c"
    and v: "validate_claims (timegm now) c None None dependency_options = Inr ()"
    by auto
  have "timegm now \<le> e" if "c ''exp'' = Some (JInt e)" for e
    using validate_claims_not_expired [OF v dependency_options_simps(2) that]
    by (simp add: dependency_options_simps)
  with t s g get_or_none_email [OF g] show ?thesis by auto
qed

lemma get_current_user_numeric:
  assumes "credentials cred = JWS a k c" and "numeric_dates c"
  shows "get_current_user st now users cred = Inl credentials_exception
       \<or> (\<exists>u. get_current_user st now users cred = Inr u)"
  using assms
  by (auto simp: get_current_user_def dependency_options_simps
        dest: jwt_decode_numeric_raises split: sum.splits option.splits json.splits)

text \<open>
  Two failures that are not the 401: \<open>except JWTError\<close> does not handle the
  \<open>TypeError\<close> that jose's \<open>int()\<close> raises on a correctly signed token whose \<open>exp\<close> is
  \<open>null\<close>, nor the \<open>RecursionError\<close> of the JSON parser.
\<close>

lemma require_identity_null_exp:
  "require_identity default_settings 1000000000 [alice]
     \<lparr>authorization = Some (''Bearer'',
        JWS (Some ''HS256'') ''your-secret-key-change-this-in-production''
            [''sub'' \<mapsto> JStr ''a@x.com'', ''exp'' \<mapsto> JNull])\<rparr>
   = Inl (TypeError ''int() argument must be a string, a bytes-like object or a real number, not NoneType'')"
  by (simp add: require_identity_def security_required_def HTTPBearer_def lower_Bearer
        get_current_user_def jwt_decode_def default_settings_def dependency_options_def
        defaults_def validate_claims_def and_then_def when_set_def validate_iat_def
        validate_nbf_def validate_exp_def)

lemma require_identity_overnested:
  "\<exists>m. require_identity default_settings 1000000000 [alice]
     \<lparr>authorization = Some (''Bearer'', Overnested ''W1tbW1tb.e30.AA'')\<rparr>
   = Inl (RecursionError m)"
  by (simp add: require_identity_def security_required_def HTTPBearer_def lower_Bearer
        get_current_user_def jwt_decode_def)

text \<open>
  C1, as stated, at a request without an \<open>Authorization\<close> header: the bearer scheme
  answers 403 \<open>Not authenticated\<close> with no challenge header, before \<open>get_current_user\<close>
  runs; this is not the 401 of the other causes. The repository's test
  \<open>test_logout_without_token\<close> expects this 403.
\<close>

theorem require_identity_missing_header_counterexample:
  "require_identity default_settings 1000000000 [alice] \<lparr>authorization = None\<rparr>
     = Inl (HTTPException 403 ''Not authenticated'' [])
   \<and> require_identity default_settings 1000000000 [alice] \<lparr>authorization = None\<rparr>
     \<noteq> Inl (HTTPException 401 ''Could not validate credentials''
              [(''WWW-Authenticate'', ''Bearer'')])"
  by (simp add: require_identity_def security_required_def HTTPBearer_def)

text \<open>
  C1, amended: for every request whose \<open>Authorization\<close> header carries a bearer
  credential, mandatory resolution fails with one and the same exception, status 401, detail \<open>Could not validate credentials\<close>, header \<open>WWW-Authenticate: Bearer\<close>,
  in each of these cases: jose's parser rejects the token as malformed; the algorithm of
  the token or the key of its signature is not the configured one; the token is expired,
  its \<open>exp\<close> being less than the whole-second reading of the clock; the token has no
  subject; the subject is the email of no stored user. The last three cases are those of
  tokens whose \<open>iat\<close>, \<open>nbf\<close> and \<open>exp\<close> are absent or integers. A user is returned only
  for a token with the configured algorithm and key that is not expired and whose subject
  is the email of that stored user.
\<close>

theorem require_identity_uniform_failure:
  assumes "security_required req = Inr (Some cred)"
  shows
    "(\<forall>r w. credentials cred = Unparseable r w \<longrightarrow>
        require_identity st now users req =
          Inl (HTTPException 401 ''Could not validate credentials''
                 [(''WWW-Authenticate'', ''Bearer'')]))
   \<and> (\<forall>a k c. credentials cred = JWS a k c \<and> (a \<noteq> Some (ALGORITHM st) \<or> k \<noteq> SECRET_KEY st) \<longrightarrow>
        require_identity st now users req =
          Inl (HTTPException 401 ''Could not validate credentials''
                 [(''WWW-Authenticate'', ''Bearer'')]))
   \<and> (\<forall>a k c e. credentials cred = JWS a k c \<and> numeric_dates c
          \<and> c ''exp'' = Some (JInt e) \<and> e < timegm now \<longrightarrow>
        require_identity st now users req =
          Inl (HTTPException 401 ''Could not validate credentials''
                 [(''WWW-Authenticate'', ''Bearer'')]))
   \<and> (\<forall>a k c. credentials cred = JWS a k c \<and> numeric_dates c \<and> c ''sub'' = None \<longrightarrow>
        require_identity st now users req =
          Inl (HTTPException 401 ''Could not validate credentials''
                 [(''WWW-Authenticate'', ''Bearer'')]))
   \<and> (\<forall>a k c em. credentials cred = JWS a k c \<and> numeric_dates c
          \<and> c ''sub'' = Some (JStr em) \<and> get_or_none users em = None \<longrightarrow>
        require_identity st now users req =
          Inl (HTTPException 401 ''Could not validate credentials''
                 [(''WWW-Authenticate'', ''Bearer'')]))
   \<and> (\<forall>u. require_identity st now users req = Inr u \<longrightarrow>
        (\<exists>c. credentials cred = JWS (Some (ALGORITHM st)) (SECRET_KEY st) c
           \<and> c ''sub'' = Some (JStr (email u)) \<and> get_or_none users (email u) = Some u
           \<and> (\<forall>e. c ''exp'' = Some (JInt e) \<longrightarrow> timegm now \<le> e)))"
proof -
  have r: "require_identity st now users req = get_current_user st now users cred"
    using assms by (simp add: require_identity_def)
  have exc: "credentials_exception = HTTPException 401 ''Could not validate credentials''
                 [(''WWW-Authenticate'', ''Bearer'')]"
    by (simp add: credentials_exception_def)
  have c1: "get_current_user st now users cred = Inl credentials_exception"
    if "credentials cred = Unparseable r w" for r w
    using that by (rule get_current_user_unparseable)
  have c2: "get_current_user st now users cred = Inl credentials_exception"
    if "credentials cred = JWS a k c" "a \<noteq> Some (ALGORITHM st) \<or> k \<noteq> SECRET_KEY st" for a k c
    using that by (rule get_current_user_bad_signature)
  have c3: "get_current_user st now users cred = Inl credentials_exception"
    if t: "credentials cred = JWS a k c" and n: "numeric_dates c"
      and e: "c ''exp'' = Some (JInt e)" "e < timegm now" for a k c e
    using get_current_user_numeric [OF t n, of st now users] e t
    by (auto dest!: get_current_user_Inr)
  have c4: "get_current_user st now users cred = Inl credentials_exception"
    if t: "credentials cred = JWS a k c" and n: "numeric_dates c"
      and s: "c ''sub'' = None" for a k c
    using get_current_user_numeric [OF t n, of st now users] s t
    by (auto dest!: get_current_user_Inr)
  have c5: "get_current_user st now users cred = Inl credentials_exception"
    if t: "credentials cred = JWS a k c" and n: "numeric_dates c"
      and s: "c ''sub'' = Some (JStr em)" "get_or_none users em = None" for a k c em
    using get_current_user_numeric [OF t n, of st now users] s t
    by (auto dest!: get_current_user_Inr)
  show ?thesis
    unfolding r exc [symmetric]
    using c1 c2 c3 c4 c5 get_current_user_Inr [of st now users cred]
    by blast
qed

lemma numeric_dates_alice: "numeric_dates alice_claims"
  by (simp add: numeric_dates_def alice_claims_def)

lemma security_required_alice:
  "security_required \<lparr>authorization = Some (''Bearer'', alice_token)\<rparr>
     = Inr (Some \<lparr>scheme = ''Bearer'', credentials = alice_token\<rparr>)"
  by (simp add: security_required_def HTTPBearer_def lower_Bearer alice_token_def)


theorem require_identity_uniform_failure_witness:
  "security_required \<lparr>authorization = Some (''Bearer'', alice_token)\<rparr>
     = Inr (Some \<lparr>scheme = ''Bearer'', credentials = alice_token\<rparr>)
   \<and> numeric_dates alice_claims \<and> alice_claims ''exp'' = Some (JInt 87400)
   \<and> 87400 < timegm 87401000000
   \<and> require_identity default_settings 87401000000 [alice]
        \<lparr>authorization = Some (''Bearer'', alice_token)\<rparr>
     = Inl (HTTPException 401 ''Could not validate credentials''
              [(''WWW-Authenticate'', ''Bearer'')])"
proof -
  have e: "alice_claims ''exp'' = Some (JInt 87400)"
    by (simp add: alice_claims_def)
  have t: "(87400 :: int) < timegm 87401000000"
    by (simp add: timegm_def)
  have c: "credentials \<lparr>scheme = ''Bearer'', credentials = alice_token\<rparr>
      = JWS (Some ''HS256'') ''your-secret-key-change-this-in-production'' alice_claims"
    by (simp add: alice_token_def)
  from require_identity_uniform_failure [OF security_required_alice,
      where st = default_settings and now = 87401000000 and users = "[alice]"]
  have "\<forall>a k c e. credentials \<lparr>scheme = ''Bearer'', credentials = alice_token\<rparr> = JWS a k c
          \<and> numeric_dates c \<and> c ''exp'' = Some (JInt e) \<and> e < timegm 87401000000 \<longrightarrow>
        require_identity default_settings 87401000000 [alice]
          \<lparr>authorization = Some (''Bearer'', alice_token)\<rparr> =
          Inl (HTTPException 401 ''Could not validate credentials''
                 [(''WWW-Authenticate'', ''Bearer'')])"
    by blast
  with c numeric_dates_alice e t security_required_alice show ?thesis by blast
qed

section \<open>Optional identity resolution\<close>








section \<open>Token codec\<close>






subsection \<open>The audience claim on the decode paths of the configuration module\<close>

text \<open>
  \<open>create_access_token\<close> always writes an \<open>aud\<close> claim. jose's \<open>jwt.decode\<close> checks a
  present \<open>aud\<close> against its \<open>audience\<close> argument unless \<open>verify_aud\<close> is switched off;
  \<open>decode_token\<close> and \<open>get_email_from_token\<close> pass neither an audience nor that option,
  the two dependencies of \<open>dependencies.py\<close> switch the check off. The lemmas below
  state both sides; the three theorems after them evaluate the functions on the token
  issued for \<open>a@x.com\<close> at second 1000.
\<close>

lemma decode_token_rejects_issued:
  assumes "create_access_token st now data delta = Inr t"
  shows "\<exists>e. decode_token st now' t = Inl e"
proof -
  from assms obtain c where t: "t = JWS (Some (ALGORITHM st)) (SECRET_KEY st) c"
    and a: "c ''aud'' = Some (JStr ''event_manager_api_users'')"
    by (auto simp: create_access_token_def jwt_encode_def Let_def split: if_splits)
  from a obtain x where "validate_aud c None = Inl x"
    using validate_aud_no_audience [of c] by blast
  from validate_claims_aud_fails [OF defaults_simps(6) this]
  obtain e where "validate_claims (timegm now') c None None defaults = Inl e" by blast
  then show ?thesis
    unfolding t
    by (auto simp: decode_token_def jwt_decode_def defaults_simps split: sum.splits)
qed

lemma dependency_decode_ignores_iss_aud:
  "(\<exists>c'. jwt_decode now (JWS a k (c(''iss'' := i, ''aud'' := d))) key algs dependency_options
           None None = Inr c')
   = (\<exists>c'. jwt_decode now (JWS a k c) key algs dependency_options None None = Inr c')"
proof -
  have "validate_claims n (c(''iss'' := i, ''aud'' := d)) None None dependency_options
      = validate_claims n c None None dependency_options" for n
    by (simp add: validate_claims_def dependency_options_def defaults_def when_set_def
          validate_iat_def validate_nbf_def validate_exp_def validate_sub_def validate_jti_def
          validate_at_hash_def)
  then show ?thesis
    by (cases a) (auto simp: jwt_decode_def dependency_options_simps split: sum.splits)
qed

lemma get_email_from_token_without_aud:
  "get_email_from_token default_settings 99999000000
     (JWS (Some ''HS256'') ''forged'' [''sub'' \<mapsto> JStr ''a@x.com'', ''exp'' \<mapsto> JInt 87400])
   = Inr (Some (JStr ''a@x.com''))"
  by (simp add: get_email_from_token_def default_settings_def jwt_decode_def defaults_def
        validate_claims_def and_then_def when_set_def validate_iat_def validate_nbf_def
        validate_aud_def validate_iss_def validate_sub_def validate_jti_def validate_at_hash_def)

text \<open>
  C3, at the token \<open>create_access_token\<close> issues for \<open>a@x.com\<close>, decoded in the second
  of its issue: the decode of the two dependencies accepts it and returns its claims,
  \<open>decode_token\<close> rejects it with \<open>JWTError('Could not validate token')\<close>. The audience
  claim is thus enforced on the \<open>decode_token\<close> path, which the claim denies for every
  decode path.
\<close>

theorem decode_paths_disagree:
  "create_access_token default_settings 1000000000 alice_data None = Inr alice_token
   \<and> jwt_decode 1000000000 alice_token (SECRET_KEY default_settings)
        [ALGORITHM default_settings] dependency_options None None = Inr alice_claims
   \<and> decode_token default_settings 1000000000 alice_token
       = Inl (JWTError ''Could not validate token'')"
  by (simp add: create_access_token_def jwt_encode_def alice_data_def alice_token_def
        alice_claims_def default_settings_def jwt_decode_def dependency_options_def defaults_def
        validate_claims_def and_then_def when_set_def validate_iat_def validate_nbf_def
        validate_exp_def validate_aud_def validate_iss_def validate_sub_def validate_jti_def
        validate_at_hash_def decode_token_def timegm_def minutes_def)

text \<open>
  C5, at the same claims: encoding them with \<open>create_access_token\<close> and decoding the
  result with \<open>decode_token\<close> 1000 seconds later, long before the expiry, does not return
  the claims but raises \<open>JWTError('Could not validate token')\<close>.
\<close>

theorem decode_encode_round_trip_fails:
  "(case create_access_token default_settings 1000000000 alice_data None of
      Inl e \<Rightarrow> Inl e
    | Inr t \<Rightarrow> decode_token default_settings 2000000000 t)
   = Inl (JWTError ''Could not validate token'')"
  by (simp add: create_access_token_def jwt_encode_def alice_data_def
        default_settings_def jwt_decode_def defaults_def
        validate_claims_def and_then_def when_set_def validate_iat_def validate_nbf_def
        validate_exp_def validate_aud_def validate_iss_def validate_sub_def validate_jti_def
        validate_at_hash_def decode_token_def timegm_def minutes_def)

text \<open>
  C10, at the same token: \<open>get_email_from_token\<close> returns \<open>None\<close> although the token is
  well-formed and its subject is \<open>a@x.com\<close>.
\<close>

theorem get_email_from_token_own_token:
  "get_email_from_token default_settings 1000000000 alice_token = Inr None
   \<and> jws_claims alice_token ''sub'' = Some (JStr ''a@x.com'')"
  by (simp add: get_email_from_token_def alice_token_def
        alice_claims_def default_settings_def jwt_decode_def defaults_def
        validate_claims_def and_then_def when_set_def validate_iat_def validate_nbf_def
        validate_exp_def validate_aud_def validate_iss_def validate_sub_def validate_jti_def
        validate_at_hash_def timegm_def)

section \<open>Password verification\<close>

text \<open>
  C7, as stated, at the stored string \<open>not-a-hash\<close>: \<open>verify_password\<close> does not return
  \<open>False\<close>, the context's \<open>UnknownHashError\<close> leaves the function.
\<close>

theorem verify_password_malformed_hash_counterexample:
  "verify_password table_backend ''Secret123'' ''not-a-hash''
     = Inl (UnknownHashError ''hash could not be identified'')
   \<and> verify_password table_backend ''Secret123'' ''not-a-hash'' \<noteq> Inr False"
  by (simp add: verify_password_def pwd_context_verify_def bcrypt_identify_def
        bcrypt_ident_values_def startswith_def)

text \<open>
  C7, amended: for every plaintext secret and every stored string that starts with none
  of the bcrypt identifiers, \<open>verify_password\<close> raises \<open>UnknownHashError\<close>; it has no
  handler that would turn the error into \<open>False\<close>.
\<close>

theorem verify_password_unidentified_hash_raises:
  assumes "\<not> bcrypt_identify h"
  shows "verify_password backend secret h = Inl (UnknownHashError ''hash could not be identified'')"
  using assms by (simp add: verify_password_def pwd_context_verify_def)

theorem verify_password_unidentified_hash_raises_witness:
  "\<not> bcrypt_identify ''plaintext-left-in-column''
   \<and> verify_password table_backend ''Secret123'' ''plaintext-left-in-column''
       = Inl (UnknownHashError ''hash could not be identified'')"
proof -
  have h: "\<not> bcrypt_identify ''plaintext-left-in-column''"
    by (simp add: bcrypt_identify_def bcrypt_ident_values_def startswith_def)
  show ?thesis
    using h verify_password_unidentified_hash_raises [OF h, of table_backend "''Secret123''"]
    by simp
qed

section \<open>Properties of registration and login\<close>

text \<open>
  C8: a registration with an email already in the user store fails with the
  bad-request exception (status 400, detail \<open>User with this email already exists\<close>) and
  leaves the user table as it was: the stored row, its password hash included, is
  untouched and no row is added.
\<close>

theorem register_duplicate_identity:
  assumes "get_or_none users (reg_email user_data) = Some existing_user"
  shows "register backend st salt now users user_data =
           (Inl (HTTPException 400 ''User with this email already exists'' []), users)"
  using assms by (simp add: register_def BadRequestException_def)

theorem register_duplicate_identity_witness:
  "get_or_none [alice]
     (reg_email \<lparr>reg_email = ''a@x.com'', reg_first_name = ''C'', reg_last_name = ''D'',
                 reg_password = ''Other4567''\<rparr>) = Some alice
   \<and> register table_backend default_settings ''abcdefghijklmnopqrstuu'' 5 [alice]
        \<lparr>reg_email = ''a@x.com'', reg_first_name = ''C'', reg_last_name = ''D'',
          reg_password = ''Other4567''\<rparr>
     = (Inl (HTTPException 400 ''User with this email already exists'' []), [alice])"
proof -
  have h: "get_or_none [alice]
     (reg_email \<lparr>reg_email = ''a@x.com'', reg_first_name = ''C'', reg_last_name = ''D'',
                 reg_password = ''Other4567''\<rparr>) = Some alice"
    by (simp add: get_or_none_def alice_def)
  show ?thesis
    using h register_duplicate_identity [OF h, of table_backend default_settings
        "''abcdefghijklmnopqrstuu''" 5]
    by simp
qed




end
